theory Spec2Isabelle
  imports Main
begin

section \<open>Persistent data (the Prisma schema)\<close>

text \<open>
  The schema declares every primary key as \<^verbatim>\<open>String @id @default(uuid())\<close>. The code only
  ever compares keys for equality, so a key is a natural number here, and \<^verbatim>\<open>uuid()\<close> is
  the generator \<open>fresh_id\<close> below, which returns a key that no row of the table carries.
  \<^verbatim>\<open>createdAt\<close> is \<^verbatim>\<open>@default(now())\<close>: the clock reading is an argument of every operation
  that creates a row. Columns that no modelled handler reads (email, password, avatar, post
  content, ...) are left out of the rows of users, posts, likes and comments. A text is the
  list of its bytes. The store is taken to be reachable: a Prisma call throws only for the
  reasons written below.
\<close>

type_synonym uuid = nat
type_synonym timestamp = nat

record user =
  u_id :: uuid
  u_username :: string

record post =
  p_id :: uuid
  p_userId :: uuid

record like =
  l_id :: uuid
  l_createdAt :: timestamp
  l_userId :: uuid
  l_postId :: uuid

record comment =
  c_id :: uuid
  c_content :: string
  c_createdAt :: timestamp
  c_userId :: uuid
  c_postId :: uuid

record follow =
  f_id :: uuid
  f_followerId :: uuid
  f_followingId :: uuid
  f_createdAt :: timestamp

record message =
  m_id :: uuid
  m_content :: string
  m_createdAt :: timestamp
  m_isRead :: bool
  m_senderId :: uuid
  m_receiverId :: uuid

datatype NotificationType = LIKE | COMMENT | FOLLOW | MESSAGE

record notification =
  n_id :: uuid
  n_type :: NotificationType
  n_createdAt :: timestamp
  n_entityId :: "uuid option"
  n_actorId :: "uuid option"

record notificationReceiver =
  nr_id :: uuid
  nr_notificationId :: uuid
  nr_userId :: uuid
  nr_isRead :: bool
  nr_createdAt :: timestamp

text \<open>The store: one list of rows per table, in insertion order.\<close>

record database =
  users :: "user list"
  posts :: "post list"
  likes :: "like list"
  comments :: "comment list"
  follows :: "follow list"
  messages :: "message list"
  notifications :: "notification list"
  notification_receivers :: "notificationReceiver list"

text \<open>
  What a Prisma call throws. \<open>P2003\<close> is a violated foreign key (the schema relates
  \<^verbatim>\<open>Message.senderId\<close>, \<^verbatim>\<open>Message.receiverId\<close>, \<^verbatim>\<open>NotificationReceiver.userId\<close>,
  \<^verbatim>\<open>Like.userId\<close>, \<^verbatim>\<open>Like.postId\<close>, \<^verbatim>\<open>Comment.userId\<close>, \<^verbatim>\<open>Comment.postId\<close>,
  \<^verbatim>\<open>Follow.followerId\<close> and \<^verbatim>\<open>Follow.followingId\<close> to their tables), \<open>P2002\<close> is a
  violated unique constraint (\<^verbatim>\<open>@@unique([userId, postId])\<close> of likes,
  \<^verbatim>\<open>@@unique([followerId, followingId])\<close> of follows), \<open>P2025\<close> is an \<^verbatim>\<open>update\<close> whose
  \<^verbatim>\<open>where\<close> finds no record, and \<open>Rejected\<close> is a query that the query engine or the
  database refuses for a value in it: a text with the character U+0000, which a PostgreSQL
  text column cannot hold, or a \<^verbatim>\<open>skip\<close> or \<^verbatim>\<open>take\<close> that \<^verbatim>\<open>findMany\<close> does not accept.
\<close>

datatype prisma_error = P2002 | P2003 | P2025 | Rejected

text \<open>A text that a \<^verbatim>\<open>String\<close> column can hold: no byte is 0.\<close>

definition text_ok :: "string \<Rightarrow> bool" where
  "text_ok t = (CHR 0x00 \<notin> set t)"

definition fresh_id :: "uuid list \<Rightarrow> uuid" where
  "fresh_id ids = Suc (foldr max ids 0)"

definition user_exists :: "uuid \<Rightarrow> database \<Rightarrow> bool" where
  "user_exists uid d = (uid \<in> set (map u_id (users d)))"


definition message_findUnique :: "uuid \<Rightarrow> database \<Rightarrow> message option" where
  "message_findUnique mid d = find (\<lambda>m. m_id m = mid) (messages d)"

text \<open>
  \<^verbatim>\<open>prisma.message.create({data: {content, senderId, receiverId}})\<close>: the new row takes the
  defaults of the schema (a fresh key, the clock, \<^verbatim>\<open>isRead = false\<close>); the insert is refused
  when the content cannot be stored, and when the sender or the receiver is not a row of
  \<^verbatim>\<open>users\<close>.
\<close>

definition message_create ::
  "timestamp \<Rightarrow> string \<Rightarrow> uuid \<Rightarrow> uuid \<Rightarrow> database \<Rightarrow> prisma_error + (message \<times> database)" where
  "message_create now content senderId receiverId d =
     (if \<not> text_ok content then Inl Rejected
      else if user_exists senderId d \<and> user_exists receiverId d then
        (let m = \<lparr> m_id = fresh_id (map m_id (messages d)), m_content = content,
                   m_createdAt = now, m_isRead = False,
                   m_senderId = senderId, m_receiverId = receiverId \<rparr>
         in Inr (m, d\<lparr> messages := messages d @ [m] \<rparr>))
      else Inl P2003)"

text \<open>
  \<^verbatim>\<open>prisma.message.update({where: {id}, data: {isRead: true}})\<close>: the one row with that key
  is rewritten; no such row is the error \<open>P2025\<close>.
\<close>

fun set_isRead :: "uuid \<Rightarrow> message list \<Rightarrow> message list option" where
  "set_isRead mid [] = None"
| "set_isRead mid (m # ms) =
     (if m_id m = mid then Some (m\<lparr> m_isRead := True \<rparr> # ms)
      else map_option ((#) m) (set_isRead mid ms))"

definition message_update_isRead :: "uuid \<Rightarrow> database \<Rightarrow> prisma_error + database" where
  "message_update_isRead mid d =
     (case set_isRead mid (messages d) of
        None \<Rightarrow> Inl P2025
      | Some ms \<Rightarrow> Inr (d\<lparr> messages := ms \<rparr>))"

text \<open>
  \<^verbatim>\<open>prisma.notification.create({data: {type, entityId, actorId, receivers: {create:
  {userId}}}})\<close>, as every call site of the repository writes it: a nested write, run as one
  transaction, of one notification row and one receiver row for \<^verbatim>\<open>userId\<close>, with the
  schema's default \<^verbatim>\<open>isRead = false\<close>. \<^verbatim>\<open>actorId\<close> and \<^verbatim>\<open>entityId\<close> are plain optional
  columns without a relation; \<^verbatim>\<open>userId\<close> of a receiver row refers to \<^verbatim>\<open>users\<close>.
\<close>

definition notification_create ::
  "timestamp \<Rightarrow> NotificationType \<Rightarrow> uuid option \<Rightarrow> uuid option \<Rightarrow> uuid \<Rightarrow> database
     \<Rightarrow> prisma_error + (notification \<times> database)" where
  "notification_create now ty entityId actorId receiverId d =
     (if user_exists receiverId d then
        (let n = \<lparr> n_id = fresh_id (map n_id (notifications d)), n_type = ty,
                   n_createdAt = now, n_entityId = entityId, n_actorId = actorId \<rparr>;
             r = \<lparr> nr_id = fresh_id (map nr_id (notification_receivers d)),
                   nr_notificationId = n_id n, nr_userId = receiverId, nr_isRead = False,
                   nr_createdAt = now \<rparr>
         in Inr (n, d\<lparr> notifications := notifications d @ [n],
                        notification_receivers := notification_receivers d @ [r] \<rparr>))
      else Inl P2003)"

section \<open>The socket layer (server/socket/socketHandlers.js)\<close>

text \<open>
  Socket.IO keeps the connected sockets of the namespace and the rooms each has joined;
  the module keeps \<^verbatim>\<open>activeConnections\<close>, a \<^verbatim>\<open>Map\<close> from user id to socket id. A socket
  arrives at the \<^verbatim>\<open>connection\<close> handler with \<^verbatim>\<open>socket.user\<close> set by the authentication
  middleware. The only rooms this code addresses are the per-user rooms
  \<^verbatim>\<open>user:${userId}\<close>.
\<close>

type_synonym socket_id = nat

datatype room = UserRoom uuid

record socket =
  sock_id :: socket_id
  sock_userId :: uuid
  joined :: "room list"

datatype status = Online | Offline

datatype event =
    UserStatus uuid status
  | MessageReceive message
  | NotificationNew
  | MessageRead uuid
  | MessageTyping uuid bool

text \<open>A delivery is an event written to one socket.\<close>

type_synonym delivery = "socket_id \<times> event"

record server =
  activeConnections :: "uuid \<rightharpoonup> socket_id"
  sockets :: "socket list"
  db :: database

text \<open>
  What a handler does: the state it leaves, the events it writes, and the exception its
  \<^verbatim>\<open>catch\<close> block passed to \<^verbatim>\<open>console.error\<close>, if any. Nothing else leaves a handler.
\<close>

type_synonym outcome = "server \<times> delivery list \<times> prisma_error option"

text \<open>\<^verbatim>\<open>io.emit(ev)\<close>: to every connected socket.\<close>

definition io_emit :: "server \<Rightarrow> event \<Rightarrow> delivery list" where
  "io_emit s ev = map (\<lambda>k. (sock_id k, ev)) (sockets s)"

text \<open>
  \<^verbatim>\<open>socket.to(room).emit(ev)\<close>: to every connected socket that has joined the room, the
  emitting socket excepted.
\<close>

definition to_room :: "server \<Rightarrow> socket_id \<Rightarrow> room \<Rightarrow> event \<Rightarrow> delivery list" where
  "to_room s me r ev =
     map (\<lambda>k. (sock_id k, ev))
       (filter (\<lambda>k. r \<in> set (joined k) \<and> sock_id k \<noteq> me) (sockets s))"

text \<open>
  \<^verbatim>\<open>io.on('connection', ...)\<close>. Socket.IO has added the socket to the namespace when the
  handler runs. The handler stores the connection, broadcasts the online status, then joins
  the user's room.
\<close>

definition connection :: "socket_id \<Rightarrow> uuid \<Rightarrow> server \<Rightarrow> outcome" where
  "connection sid userId s =
     (let s1 = s\<lparr> sockets := sockets s @ [\<lparr> sock_id = sid, sock_userId = userId, joined = [] \<rparr>] \<rparr>;
          s2 = s1\<lparr> activeConnections := (activeConnections s1)(userId \<mapsto> sid) \<rparr>;
          out = io_emit s2 (UserStatus userId Online);
          s3 = s2\<lparr> sockets := map (\<lambda>k. if sock_id k = sid
                                         then k\<lparr> joined := joined k @ [UserRoom userId] \<rparr> else k)
                                  (sockets s2) \<rparr>
      in (s3, out, None))"

text \<open>
  \<^verbatim>\<open>socket.on('disconnect', ...)\<close>. Socket.IO has taken the socket out of its rooms and of
  the namespace when the handler runs. The handler deletes the user's entry and broadcasts
  the offline status.
\<close>

definition disconnect :: "socket_id \<Rightarrow> uuid \<Rightarrow> server \<Rightarrow> outcome" where
  "disconnect sid userId s =
     (let s1 = s\<lparr> sockets := filter (\<lambda>k. sock_id k \<noteq> sid) (sockets s) \<rparr>;
          s2 = s1\<lparr> activeConnections := (activeConnections s1)(userId := None) \<rparr>
      in (s2, io_emit s2 (UserStatus userId Offline), None))"

text \<open>\<^verbatim>\<open>isUserOnline\<close>: \<^verbatim>\<open>activeConnections.has(userId)\<close>.\<close>

definition isUserOnline :: "server \<Rightarrow> uuid \<Rightarrow> bool" where
  "isUserOnline s userId = (activeConnections s userId \<noteq> None)"


text \<open>
  \<^verbatim>\<open>socket.on('message:send', ...)\<close>: create the message, create the notification with its
  one receiver row, then emit \<^verbatim>\<open>message:receive\<close> with the created message and
  \<^verbatim>\<open>notification:new\<close> to the receiver's room. An exception of either write ends the
  handler in its \<^verbatim>\<open>catch\<close>. The joined \<^verbatim>\<open>sender\<close> profile that \<^verbatim>\<open>include\<close> adds to the
  payload is left out of the event.
\<close>

definition message_send ::
  "socket_id \<Rightarrow> uuid \<Rightarrow> timestamp \<Rightarrow> uuid \<Rightarrow> string \<Rightarrow> server \<Rightarrow> outcome" where
  "message_send sid userId now receiverId content s =
     (case message_create now content userId receiverId (db s) of
        Inl e \<Rightarrow> (s, [], Some e)
      | Inr (msg, d1) \<Rightarrow>
          (case notification_create now MESSAGE None (Some userId) receiverId d1 of
             Inl e \<Rightarrow> (s\<lparr> db := d1 \<rparr>, [], Some e)
           | Inr (n, d2) \<Rightarrow>
               (s\<lparr> db := d2 \<rparr>,
                to_room s sid (UserRoom receiverId) (MessageReceive msg)
                  @ to_room s sid (UserRoom receiverId) NotificationNew,
                None)))"

text \<open>
  \<^verbatim>\<open>socket.on('message:read', ...)\<close>: update the flag, read the message back, and emit
  \<^verbatim>\<open>message:read\<close> to the room of its sender.
\<close>

definition message_read :: "socket_id \<Rightarrow> uuid \<Rightarrow> uuid \<Rightarrow> server \<Rightarrow> outcome" where
  "message_read sid userId messageId s =
     (case message_update_isRead messageId (db s) of
        Inl e \<Rightarrow> (s, [], Some e)
      | Inr d1 \<Rightarrow>
          (case message_findUnique messageId d1 of
             Some msg \<Rightarrow>
               (s\<lparr> db := d1 \<rparr>, to_room s sid (UserRoom (m_senderId msg)) (MessageRead messageId), None)
           | None \<Rightarrow> (s\<lparr> db := d1 \<rparr>, [], None)))"

text \<open>\<^verbatim>\<open>socket.on('message:typing', ...)\<close>: relayed to the receiver's room, nothing stored.\<close>

definition message_typing :: "socket_id \<Rightarrow> uuid \<Rightarrow> uuid \<Rightarrow> bool \<Rightarrow> server \<Rightarrow> outcome" where
  "message_typing sid userId receiverId isTyping s =
     (s, to_room s sid (UserRoom receiverId) (MessageTyping userId isTyping), None)"

section \<open>The REST routes\<close>

text \<open>
  A route is a function of the authenticated user (\<^verbatim>\<open>req.user.id\<close>, set by \<^verbatim>\<open>verifyToken\<close>),
  the request's parameters and the store; it returns the status code of the response and the
  store it leaves. An exception inside the \<^verbatim>\<open>try\<close> block is the response 500.
\<close>

type_synonym response = "nat \<times> database"

text \<open>\<^verbatim>\<open>POST /\<close> of message.routes.js.\<close>

definition post_message :: "uuid \<Rightarrow> timestamp \<Rightarrow> uuid \<Rightarrow> string \<Rightarrow> database \<Rightarrow> response" where
  "post_message me now receiverId content d =
     (if content = [] then (400, d)
      else if \<not> user_exists receiverId d then (404, d)
      else
        (case message_create now content me receiverId d of
           Inl e \<Rightarrow> (500, d)
         | Inr (msg, d1) \<Rightarrow>
             (case notification_create now MESSAGE None (Some me) receiverId d1 of
                Inl e \<Rightarrow> (500, d1)
              | Inr (n, d2) \<Rightarrow> (201, d2))))"









text \<open>\<^verbatim>\<open>PUT /read-all\<close> and \<^verbatim>\<open>GET /unread/count\<close> of the notification routes.\<close>

definition mark_receiver_read :: "uuid \<Rightarrow> notificationReceiver \<Rightarrow> notificationReceiver" where
  "mark_receiver_read me r =
     (if nr_userId r = me \<and> nr_isRead r = False then r\<lparr> nr_isRead := True \<rparr> else r)"

definition put_read_all :: "uuid \<Rightarrow> database \<Rightarrow> response" where
  "put_read_all me d =
     (200, d\<lparr> notification_receivers := map (mark_receiver_read me) (notification_receivers d) \<rparr>)"

text \<open>The response of the count route is its status and the \<^verbatim>\<open>count\<close> of its body.\<close>

definition get_unread_count :: "uuid \<Rightarrow> database \<Rightarrow> nat \<times> nat" where
  "get_unread_count me d =
     (200, length (filter (\<lambda>r. nr_userId r = me \<and> nr_isRead r = False) (notification_receivers d)))"


section \<open>Example states\<close>

text \<open>
  Three users, one post of the first. Alice (user 1) connects on socket 10, Bob (user 2) on
  socket 20; Alice sends ``hi'' to Bob at time 100 and Bob marks the message read.
  \<open>ex_alice_twice\<close> is Alice connected a second time, on socket 11; in \<open>ex_stale\<close> her
  first socket has then disconnected and Bob has connected.
\<close>

definition ex_db :: database where
  "ex_db = \<lparr> users = [\<lparr> u_id = 1, u_username = ''alice'' \<rparr>, \<lparr> u_id = 2, u_username = ''bob'' \<rparr>,
                      \<lparr> u_id = 3, u_username = ''carol'' \<rparr>],
             posts = [\<lparr> p_id = 1, p_userId = 1 \<rparr>], likes = [], comments = [], follows = [],
             messages = [],
             notifications = [], notification_receivers = [] \<rparr>"

definition ex_server :: server where
  "ex_server = \<lparr> activeConnections = Map.empty, sockets = [], db = ex_db \<rparr>"

definition ex_alice_online :: server where
  "ex_alice_online = fst (connection 10 1 ex_server)"

definition ex_alice_twice :: server where
  "ex_alice_twice = fst (connection 11 1 ex_alice_online)"

definition ex_both_online :: server where
  "ex_both_online = fst (connection 20 2 ex_alice_online)"

definition ex_sent :: server where
  "ex_sent = fst (message_send 10 1 100 2 ''hi'' ex_both_online)"

definition ex_read :: server where
  "ex_read = fst (message_read 20 2 1 ex_sent)"

definition ex_stale :: server where
  "ex_stale = fst (connection 20 2 (fst (disconnect 10 1 ex_alice_twice)))"

text \<open>The \<^verbatim>\<open>message:receive\<close> deliveries among the events a handler wrote.\<close>

definition is_receive :: "delivery \<Rightarrow> bool" where
  "is_receive d = (case snd d of MessageReceive m \<Rightarrow> True | _ \<Rightarrow> False)"



section \<open>Auxiliary facts\<close>

lemma foldr_max_ge: "x \<in> set ids \<Longrightarrow> x \<le> foldr max ids (0::nat)"
  by (induction ids) (auto simp: max_def)

lemma fresh_id_notin: "fresh_id ids \<notin> set ids"
proof
  assume "fresh_id ids \<in> set ids"
  then have "fresh_id ids \<le> foldr max ids 0" by (rule foldr_max_ge)
  then show False by (simp add: fresh_id_def)
qed

lemma fresh_id_fresh: "x \<in> set xs \<Longrightarrow> f x \<noteq> fresh_id (map f xs)"
  using fresh_id_notin [of "map f xs"] by (metis image_eqI list.set_map)

lemma find_append_new:
  "\<forall>x\<in>set xs. \<not> P x \<Longrightarrow> P y \<Longrightarrow> find P (xs @ [y]) = Some y"
  by (induction xs) auto

lemma set_isRead_None: "find (\<lambda>m. m_id m = mid) ms = None \<Longrightarrow> set_isRead mid ms = None"
  by (induction ms) (auto split: if_splits)

lemma set_isRead_already:
  "find (\<lambda>m. m_id m = mid) ms = Some m \<Longrightarrow> m_isRead m \<Longrightarrow> set_isRead mid ms = Some ms"
  by (induction ms) (auto split: if_splits)

lemma ex_db_users [simp]:
  "user_exists 1 ex_db" "user_exists (Suc 0) ex_db" "user_exists 2 ex_db" "user_exists 3 ex_db"
  "\<not> user_exists 99 ex_db"
  by (simp_all add: user_exists_def ex_db_def)

lemma ex_alice_online_eq:
  "ex_alice_online = \<lparr> activeConnections = [1 \<mapsto> 10],
      sockets = [\<lparr> sock_id = 10, sock_userId = 1, joined = [UserRoom 1] \<rparr>], db = ex_db \<rparr>"
  by (simp add: ex_alice_online_def ex_server_def connection_def Let_def)

lemma ex_alice_twice_eq:
  "ex_alice_twice = \<lparr> activeConnections = [1 \<mapsto> 11],
      sockets = [\<lparr> sock_id = 10, sock_userId = 1, joined = [UserRoom 1] \<rparr>,
                 \<lparr> sock_id = 11, sock_userId = 1, joined = [UserRoom 1] \<rparr>], db = ex_db \<rparr>"
  by (simp add: ex_alice_twice_def ex_alice_online_eq connection_def Let_def)

lemma ex_both_online_eq:
  "ex_both_online = \<lparr> activeConnections = [1 \<mapsto> 10, 2 \<mapsto> 20],
      sockets = [\<lparr> sock_id = 10, sock_userId = 1, joined = [UserRoom 1] \<rparr>,
                 \<lparr> sock_id = 20, sock_userId = 2, joined = [UserRoom 2] \<rparr>], db = ex_db \<rparr>"
  by (simp add: ex_both_online_def ex_alice_online_eq connection_def Let_def)

lemma ex_sent_eq:
  "ex_sent = ex_both_online\<lparr> db := ex_db\<lparr>
      messages := [\<lparr> m_id = 1, m_content = ''hi'', m_createdAt = 100, m_isRead = False,
                     m_senderId = 1, m_receiverId = 2 \<rparr>],
      notifications := [\<lparr> n_id = 1, n_type = MESSAGE, n_createdAt = 100, n_entityId = None,
                          n_actorId = Some 1 \<rparr>],
      notification_receivers := [\<lparr> nr_id = 1, nr_notificationId = 1, nr_userId = 2,
                                   nr_isRead = False, nr_createdAt = 100 \<rparr>] \<rparr> \<rparr>"
  by (simp add: ex_sent_def message_send_def message_create_def notification_create_def
      ex_both_online_eq Let_def fresh_id_def ex_db_def user_exists_def text_ok_def)

lemma ex_read_eq:
  "ex_read = ex_both_online\<lparr> db := ex_db\<lparr>
      messages := [\<lparr> m_id = 1, m_content = ''hi'', m_createdAt = 100, m_isRead = True,
                     m_senderId = 1, m_receiverId = 2 \<rparr>],
      notifications := [\<lparr> n_id = 1, n_type = MESSAGE, n_createdAt = 100, n_entityId = None,
                          n_actorId = Some 1 \<rparr>],
      notification_receivers := [\<lparr> nr_id = 1, nr_notificationId = 1, nr_userId = 2,
                                   nr_isRead = False, nr_createdAt = 100 \<rparr>] \<rparr> \<rparr>"
  by (simp add: ex_read_def ex_sent_eq message_read_def message_update_isRead_def
      message_findUnique_def ex_both_online_eq)

lemma ex_stale_eq:
  "ex_stale = \<lparr> activeConnections = [2 \<mapsto> 20],
      sockets = [\<lparr> sock_id = 11, sock_userId = 1, joined = [UserRoom 1] \<rparr>,
                 \<lparr> sock_id = 20, sock_userId = 2, joined = [UserRoom 2] \<rparr>], db = ex_db \<rparr>"
  by (simp add: ex_stale_def ex_alice_twice_eq connection_def disconnect_def Let_def)

lemma user_exists_messages [simp]: "user_exists u (d\<lparr> messages := ms \<rparr>) = user_exists u d"
  by (simp add: user_exists_def)

lemma user_exists_likes [simp]: "user_exists u (d\<lparr> likes := ls \<rparr>) = user_exists u d"
  by (simp add: user_exists_def)

lemma user_exists_comments [simp]: "user_exists u (d\<lparr> comments := cs \<rparr>) = user_exists u d"
  by (simp add: user_exists_def)

lemma user_exists_follows [simp]: "user_exists u (d\<lparr> follows := fs \<rparr>) = user_exists u d"
  by (simp add: user_exists_def)

lemma filter_receive_receive:
  "filter is_receive (map (\<lambda>k. (f k, MessageReceive m)) ks) = map (\<lambda>k. (f k, MessageReceive m)) ks"
  by (induction ks) (simp_all add: is_receive_def)

lemma filter_receive_notification:
  "filter is_receive (map (\<lambda>k. (f k, NotificationNew)) ks) = []"
  by (induction ks) (simp_all add: is_receive_def)

lemma message_findUnique_created:
  "message_findUnique (fresh_id (map m_id (messages d)))
     (d\<lparr> messages := messages d @ [\<lparr> m_id = fresh_id (map m_id (messages d)), m_content = c,
          m_createdAt = t, m_isRead = r, m_senderId = a, m_receiverId = b \<rparr>],
         notifications := ns, notification_receivers := rs \<rparr>)
   = Some \<lparr> m_id = fresh_id (map m_id (messages d)), m_content = c,
          m_createdAt = t, m_isRead = r, m_senderId = a, m_receiverId = b \<rparr>"
proof -
  have "\<forall>x\<in>set (messages d). \<not> m_id x = fresh_id (map m_id (messages d))"
    using fresh_id_fresh [of _ "messages d" m_id] by blast
  then show ?thesis
    unfolding message_findUnique_def by (simp add: find_append_new)
qed

text \<open>The socket handler between two existing users, the content storable: both writes succeed.\<close>

lemma message_send_ok:
  assumes "user_exists a (db s)" and "user_exists b (db s)" and "text_ok content"
  shows "message_send sid a now b content s =
     (s\<lparr> db := (db s)\<lparr>
           messages := messages (db s) @ [\<lparr> m_id = fresh_id (map m_id (messages (db s))),
              m_content = content, m_createdAt = now, m_isRead = False,
              m_senderId = a, m_receiverId = b \<rparr>],
           notifications := notifications (db s) @ [\<lparr> n_id = fresh_id (map n_id (notifications (db s))),
              n_type = MESSAGE, n_createdAt = now, n_entityId = None, n_actorId = Some a \<rparr>],
           notification_receivers := notification_receivers (db s) @
             [\<lparr> nr_id = fresh_id (map nr_id (notification_receivers (db s))),
                nr_notificationId = fresh_id (map n_id (notifications (db s))),
                nr_userId = b, nr_isRead = False, nr_createdAt = now \<rparr>] \<rparr> \<rparr>,
      to_room s sid (UserRoom b) (MessageReceive \<lparr> m_id = fresh_id (map m_id (messages (db s))),
              m_content = content, m_createdAt = now, m_isRead = False,
              m_senderId = a, m_receiverId = b \<rparr>)
        @ to_room s sid (UserRoom b) NotificationNew,
      None)"
  using assms
  by (simp add: message_send_def message_create_def notification_create_def Let_def)

text \<open>The socket handler, receiver unknown: the insert is refused and the handler logs it.\<close>

lemma message_send_unknown_receiver:
  "\<not> user_exists receiverId (db s) \<Longrightarrow>
   message_send sid a now receiverId content s =
     (s, [], Some (if text_ok content then P2003 else Rejected))"
  by (simp add: message_send_def message_create_def)

text \<open>The REST route refuses an empty content and an unknown receiver before any write.\<close>

lemma post_message_empty: "post_message me now receiverId [] d = (400, d)"
  by (simp add: post_message_def)

lemma post_message_unknown_receiver:
  "content \<noteq> [] \<Longrightarrow> \<not> user_exists receiverId d \<Longrightarrow>
   post_message me now receiverId content d = (404, d)"
  by (simp add: post_message_def)


lemma mark_receiver_read_eq:
  "mark_receiver_read me r = (if nr_userId r = me then r\<lparr> nr_isRead := True \<rparr> else r)"
  by (simp add: mark_receiver_read_def)

lemma unread_after_mark:
  "filter (\<lambda>r. nr_userId r = me \<and> \<not> nr_isRead r) (map (mark_receiver_read me) rs) = []"
  by (induction rs) (simp_all add: mark_receiver_read_def)

lemma read_after_mark_one:
  "nr_userId (mark_receiver_read me r) = me \<Longrightarrow> nr_isRead (mark_receiver_read me r)"
  by (cases "nr_isRead r") (simp_all add: mark_receiver_read_def split: if_splits)

lemma read_after_mark:
  "\<forall>x \<in> set (map (mark_receiver_read me) rs). nr_userId x = me \<longrightarrow> nr_isRead x"
  by (induction rs) (simp_all add: read_after_mark_one)




















section \<open>The connection registry\<close>

text \<open>
  Alice is connected on sockets 10 and 11, and the registry holds 11. When socket 10
  disconnects, the handler deletes Alice's entry although it holds the other socket: the
  registry no longer returns 11 and reports Alice offline.
\<close>

theorem stale_disconnect_counterexample:
  "activeConnections ex_alice_twice 1 = Some 11
   \<and> activeConnections (fst (disconnect 10 1 ex_alice_twice)) 1 \<noteq> Some 11
   \<and> \<not> isUserOnline (fst (disconnect 10 1 ex_alice_twice)) 1"
  by (simp add: ex_alice_twice_eq disconnect_def isUserOnline_def Let_def)

text \<open>
  C1, as the code has it. After \<open>c1\<close> and then \<open>c2\<close> have connected for the identity
  \<open>a\<close>, the registry maps \<open>a\<close> to \<open>c2\<close>; the disconnect of \<open>c1\<close> then removes the
  entry of \<open>a\<close>, so that the lookup of \<open>a\<close> finds nothing and \<open>a\<close> is reported offline.
  In any state, a disconnect of a socket of \<open>a\<close> removes the entry of \<open>a\<close> whatever
  handle it holds.
\<close>

theorem disconnect_deletes_entry:
  "activeConnections (fst (connection c2 a (fst (connection c1 a s)))) a = Some c2
   \<and> activeConnections (fst (disconnect c1 a (fst (connection c2 a (fst (connection c1 a s)))))) a = None
   \<and> \<not> isUserOnline (fst (disconnect c1 a (fst (connection c2 a (fst (connection c1 a s)))))) a
   \<and> activeConnections (fst (disconnect c a s)) a = None
   \<and> \<not> isUserOnline (fst (disconnect c a s)) a"
  by (simp add: connection_def disconnect_def isUserOnline_def Let_def)

theorem disconnect_deletes_entry_witness:
  "activeConnections (fst (connection 11 1 (fst (connection 10 1 ex_server)))) 1 = Some 11
   \<and> activeConnections (fst (disconnect 10 1 (fst (connection 11 1 (fst (connection 10 1 ex_server)))))) 1 = None"
  using disconnect_deletes_entry [of 11 1 10 ex_server] by simp

section \<open>Presence\<close>

text \<open>
  C9. The connection handler of a socket of \<open>a\<close> writes the event
  \<open>UserStatus a Online\<close> once to each connected socket, the new one included (it is the
  last of the list); the disconnect handler writes \<open>UserStatus a Offline\<close> once to each
  socket that remains. Where socket ids are distinct, no socket is written to twice.
\<close>

theorem presence_broadcast:
  "fst (snd (connection sid a s)) =
     map (\<lambda>k. (sock_id k, UserStatus a Online)) (sockets (fst (connection sid a s)))
   \<and> sid \<in> set (map fst (fst (snd (connection sid a s))))
   \<and> map fst (fst (snd (connection sid a s))) = map sock_id (sockets s) @ [sid]
   \<and> fst (snd (disconnect sid a s)) =
     map (\<lambda>k. (sock_id k, UserStatus a Offline)) (sockets (fst (disconnect sid a s)))
   \<and> map fst (fst (snd (disconnect sid a s))) = filter (\<lambda>k. k \<noteq> sid) (map sock_id (sockets s))
   \<and> (distinct (map sock_id (sockets s)) \<and> sid \<notin> set (map sock_id (sockets s))
        \<longrightarrow> distinct (map fst (fst (snd (connection sid a s)))))
   \<and> (distinct (map sock_id (sockets s))
        \<longrightarrow> distinct (map fst (fst (snd (disconnect sid a s)))))"
proof -
  have c: "fst (snd (connection sid a s)) =
      map (\<lambda>k. (sock_id k, UserStatus a Online)) (sockets (fst (connection sid a s)))"
    by (simp add: connection_def io_emit_def Let_def o_def)
  have ci: "map fst (fst (snd (connection sid a s))) = map sock_id (sockets s) @ [sid]"
    by (simp add: connection_def io_emit_def Let_def o_def)
  have d: "fst (snd (disconnect sid a s)) =
      map (\<lambda>k. (sock_id k, UserStatus a Offline)) (sockets (fst (disconnect sid a s)))"
    by (simp add: disconnect_def io_emit_def Let_def)
  have di: "map fst (fst (snd (disconnect sid a s))) = filter (\<lambda>k. k \<noteq> sid) (map sock_id (sockets s))"
    by (simp add: disconnect_def io_emit_def Let_def o_def filter_map)
  show ?thesis
    unfolding ci di using c d by (simp add: distinct_map_filter)
qed

theorem presence_broadcast_witness:
  "fst (snd (connection 20 2 ex_alice_online)) = [(10, UserStatus 2 Online), (20, UserStatus 2 Online)]
   \<and> fst (snd (disconnect 20 2 ex_both_online)) = [(10, UserStatus 2 Offline)]"
proof -
  have s: "sockets (fst (connection 20 2 ex_alice_online)) =
      [\<lparr> sock_id = 10, sock_userId = 1, joined = [UserRoom 1] \<rparr>,
       \<lparr> sock_id = 20, sock_userId = 2, joined = [UserRoom 2] \<rparr>]"
    by (simp add: ex_alice_online_eq connection_def Let_def)
  have r: "sockets (fst (disconnect 20 2 ex_both_online)) =
      [\<lparr> sock_id = 10, sock_userId = 1, joined = [UserRoom 1] \<rparr>]"
    by (simp add: ex_both_online_eq disconnect_def Let_def)
  have a: "fst (snd (connection 20 2 ex_alice_online)) =
      map (\<lambda>k. (sock_id k, UserStatus 2 Online)) (sockets (fst (connection 20 2 ex_alice_online)))"
    by (rule presence_broadcast [THEN conjunct1])
  have b: "fst (snd (disconnect 20 2 ex_both_online)) =
      map (\<lambda>k. (sock_id k, UserStatus 2 Offline)) (sockets (fst (disconnect 20 2 ex_both_online)))"
    by (rule presence_broadcast [THEN conjunct2, THEN conjunct2, THEN conjunct2, THEN conjunct1])
  show ?thesis
    unfolding a b s r by simp
qed

section \<open>Read receipts\<close>

text \<open>
  Bob has marked Alice's message read. When he marks it read again, the handler emits
  \<^verbatim>\<open>message:read\<close> to Alice's socket again.
\<close>

theorem read_twice_counterexample:
  "map m_isRead (messages (db ex_read)) = [True]
   \<and> fst (snd (message_read 20 2 1 ex_read)) = [(10, MessageRead 1)]
   \<and> snd (snd (message_read 20 2 1 ex_read)) = None"
  by (simp add: ex_read_eq message_read_def message_update_isRead_def
      message_findUnique_def ex_both_online_eq to_room_def)

text \<open>
  C2, as the code has it. For a stored message \<open>m\<close> that is already read, marking it read
  again throws nothing and leaves the whole state as it was, and it emits
  \<^verbatim>\<open>message:read\<close> once more to every connected socket in the room of the message's sender,
  the reader's own socket excepted.
\<close>

theorem message_read_again:
  "message_findUnique mid (db s) = Some m \<Longrightarrow> m_isRead m \<Longrightarrow>
   message_read sid u mid s = (s, to_room s sid (UserRoom (m_senderId m)) (MessageRead mid), None)"
  by (simp add: message_read_def message_update_isRead_def message_findUnique_def set_isRead_already)

theorem message_read_again_witness:
  "message_read 20 2 1 ex_read = (ex_read, [(10, MessageRead 1)], None)"
proof -
  have f: "message_findUnique 1 (db ex_read) =
      Some \<lparr> m_id = 1, m_content = ''hi'', m_createdAt = 100, m_isRead = True,
             m_senderId = 1, m_receiverId = 2 \<rparr>"
    by (simp add: ex_read_eq message_findUnique_def)
  have t: "to_room ex_read 20 (UserRoom 1) (MessageRead 1) = [(10, MessageRead 1)]"
    by (simp add: ex_read_eq ex_both_online_eq to_room_def)
  show ?thesis
    using message_read_again [OF f, of 20 2] t by simp
qed

text \<open>
  Bob marks a message read that does not exist: the update throws, and the handler ends in
  its \<^verbatim>\<open>catch\<close> with the exception.
\<close>

theorem read_missing_counterexample:
  "message_findUnique 7 (db ex_read) = None
   \<and> snd (snd (message_read 20 2 7 ex_read)) = Some P2025"
  by (simp add: ex_read_eq message_read_def message_update_isRead_def message_findUnique_def)

text \<open>
  C7, as the code has it. For a message id that no stored message carries, the update of
  the read handler throws (no record to update) and the handler ends in its \<^verbatim>\<open>catch\<close>,
  which logs the exception on the server. Nothing is changed in the store or the registry,
  no event is written to any socket, and the caller is sent nothing.
\<close>

theorem message_read_missing:
  "message_findUnique mid (db s) = None \<Longrightarrow> message_read sid u mid s = (s, [], Some P2025)"
  by (simp add: message_read_def message_update_isRead_def message_findUnique_def set_isRead_None)

theorem message_read_missing_witness:
  "message_findUnique 99 (db ex_sent) = None \<and> message_read 20 2 99 ex_sent = (ex_sent, [], Some P2025)"
proof -
  have f: "message_findUnique 99 (db ex_sent) = None"
    by (simp add: ex_sent_eq message_findUnique_def)
  show ?thesis
    using f message_read_missing [OF f, of 20 2] by simp
qed

section \<open>Sending a message over the socket\<close>

text \<open>
  Two runs of the handler. Alice, connected on socket 10 and registered, sends to herself:
  no \<^verbatim>\<open>message:receive\<close> is written, since the room is addressed with the sending socket
  left out. In \<open>ex_stale\<close> Alice has no registry entry, and Bob's message to her is
  written to her socket 11, which is still in her room.
\<close>

theorem send_delivery_counterexample:
  "isUserOnline ex_alice_online 1
   \<and> filter is_receive (fst (snd (message_send 10 1 100 1 ''hi'' ex_alice_online))) = []
   \<and> \<not> isUserOnline ex_stale 1
   \<and> filter is_receive (fst (snd (message_send 20 2 100 1 ''hi'' ex_stale))) =
       [(11, MessageReceive \<lparr> m_id = 1, m_content = ''hi'', m_createdAt = 100, m_isRead = False,
                               m_senderId = 2, m_receiverId = 1 \<rparr>)]"
proof -
  have a: "user_exists 1 (db ex_alice_online)" "user_exists 1 (db ex_stale)" "user_exists 2 (db ex_stale)"
    by (simp_all add: ex_alice_online_eq ex_stale_eq)
  have t: "text_ok ''hi''"
    by (simp add: text_ok_def)
  have m: "messages (db ex_stale) = []"
    by (simp add: ex_stale_eq ex_db_def)
  show ?thesis
    unfolding message_send_ok [OF a(1) a(1) t] message_send_ok [OF a(3) a(2) t]
    by (simp add: m fresh_id_def to_room_def is_receive_def isUserOnline_def ex_alice_online_eq
        ex_stale_eq ex_db_def)
qed

text \<open>
  C3, as the code has it. When sender \<open>a\<close> and receiver \<open>b\<close> are rows of the users
  table and the content is not empty and can be stored, the handler stores one new message
  with the given content, sender and receiver, unread, and the message is found again under
  its id. It writes \<^verbatim>\<open>message:receive\<close> with that message exactly once to each connected
  socket that has joined the room of \<open>b\<close>, the sending socket excepted, and to no other
  socket: once if \<open>b\<close> has one such socket, not at all if it has none. The registry is
  not consulted.
\<close>

theorem message_send_delivery:
  assumes "user_exists a (db s)" and "user_exists b (db s)"
    and "content \<noteq> []" and "text_ok content"
  shows "\<exists>msg s'.
     message_send sid a now b content s =
       (s', to_room s sid (UserRoom b) (MessageReceive msg) @ to_room s sid (UserRoom b) NotificationNew, None)
     \<and> m_content msg = content \<and> m_senderId msg = a \<and> m_receiverId msg = b \<and> m_isRead msg = False
     \<and> messages (db s') = messages (db s) @ [msg]
     \<and> message_findUnique (m_id msg) (db s') = Some msg
     \<and> filter is_receive (fst (snd (message_send sid a now b content s))) =
         map (\<lambda>k. (sock_id k, MessageReceive msg))
           (filter (\<lambda>k. UserRoom b \<in> set (joined k) \<and> sock_id k \<noteq> sid) (sockets s))"
  unfolding message_send_ok [OF assms(1) assms(2) assms(4)]
  by (simp add: message_findUnique_created to_room_def filter_receive_receive filter_receive_notification)

theorem message_send_delivery_witness:
  "user_exists 1 (db ex_both_online) \<and> user_exists 2 (db ex_both_online)
   \<and> ''hi'' \<noteq> [] \<and> text_ok ''hi''
   \<and> message_send 10 1 100 2 ''hi'' ex_both_online =
       (ex_sent, [(20, MessageReceive \<lparr> m_id = 1, m_content = ''hi'', m_createdAt = 100,
                     m_isRead = False, m_senderId = 1, m_receiverId = 2 \<rparr>), (20, NotificationNew)], None)
   \<and> message_findUnique 1 (db ex_sent) = Some \<lparr> m_id = 1, m_content = ''hi'', m_createdAt = 100,
          m_isRead = False, m_senderId = 1, m_receiverId = 2 \<rparr>"
proof -
  have a: "user_exists 1 (db ex_both_online)" and b: "user_exists 2 (db ex_both_online)"
    by (simp_all add: ex_both_online_eq)
  have c: "''hi'' \<noteq> []" and t: "text_ok ''hi''"
    by (simp_all add: text_ok_def)
  from message_send_delivery [OF a b c t, of 10 100]
  obtain msg s' where r: "message_send 10 1 100 2 ''hi'' ex_both_online =
       (s', to_room ex_both_online 10 (UserRoom 2) (MessageReceive msg)
            @ to_room ex_both_online 10 (UserRoom 2) NotificationNew, None)"
    and m: "messages (db s') = messages (db ex_both_online) @ [msg]"
    and f: "message_findUnique (m_id msg) (db s') = Some msg"
    by (elim exE conjE)
  have s: "s' = ex_sent" using r by (simp add: ex_sent_def)
  then have "msg = \<lparr> m_id = 1, m_content = ''hi'', m_createdAt = 100, m_isRead = False,
                               m_senderId = 1, m_receiverId = 2 \<rparr>"
    using m by (simp add: ex_sent_eq ex_both_online_eq ex_db_def)
  then show ?thesis
    using r f s a b c t by (simp add: to_room_def ex_both_online_eq)
qed

text \<open>
  C4: a send with empty content is to fail before any write. The REST route does so
  (\<open>post_message_empty\<close>). The socket handler has no such check: run with the empty
  content from Alice to Bob, it stores a message row with empty content, a notification row
  and a receiver row, and delivers the message.
\<close>

theorem empty_content_is_stored:
  "message_send 10 1 100 2 [] ex_both_online =
     (ex_both_online\<lparr> db := ex_db\<lparr>
        messages := [\<lparr> m_id = 1, m_content = [], m_createdAt = 100, m_isRead = False,
                       m_senderId = 1, m_receiverId = 2 \<rparr>],
        notifications := [\<lparr> n_id = 1, n_type = MESSAGE, n_createdAt = 100, n_entityId = None,
                            n_actorId = Some 1 \<rparr>],
        notification_receivers := [\<lparr> nr_id = 1, nr_notificationId = 1, nr_userId = 2,
                                     nr_isRead = False, nr_createdAt = 100 \<rparr>] \<rparr> \<rparr>,
      [(20, MessageReceive \<lparr> m_id = 1, m_content = [], m_createdAt = 100, m_isRead = False,
                             m_senderId = 1, m_receiverId = 2 \<rparr>), (20, NotificationNew)],
      None)"
  by (simp add: message_send_def message_create_def notification_create_def to_room_def
      ex_both_online_eq Let_def fresh_id_def ex_db_def user_exists_def text_ok_def)

text \<open>
  C5. A send to a receiver who is no user fails and writes nothing, on both paths. The
  store itself guards the socket path: the handler's insert is refused for the foreign key
  of the receiver (or, before that, for a content it cannot hold), the exception ends in the
  handler's \<^verbatim>\<open>catch\<close>, the state is as it was and no event is written. The REST route looks
  the receiver up before it writes and answers 404 (400 for an empty content), the store as
  it was.
\<close>

theorem unknown_receiver_fails:
  assumes "\<not> user_exists receiverId (db s)"
  shows "message_send sid a now receiverId content s =
           (s, [], Some (if text_ok content then P2003 else Rejected))
     \<and> post_message a now receiverId content (db s) = (if content = [] then 400 else 404, db s)"
  using assms by (simp add: message_send_def message_create_def post_message_def)

theorem unknown_receiver_fails_witness:
  "\<not> user_exists 99 (db ex_both_online)
   \<and> message_send 10 1 100 99 ''hi'' ex_both_online = (ex_both_online, [], Some P2003)
   \<and> post_message 1 100 99 ''hi'' (db ex_both_online) = (404, db ex_both_online)"
proof -
  have n: "\<not> user_exists 99 (db ex_both_online)"
    by (simp add: ex_both_online_eq)
  show ?thesis
    using n unknown_receiver_fails [OF n, of 10 1 100 "''hi''"] by (simp add: text_ok_def)
qed

section \<open>Notifications\<close>




text \<open>
  C8. Marking all read for \<open>me\<close> answers 200 whatever the rows are, sets \<^verbatim>\<open>isRead\<close> on
  every receiver row of \<open>me\<close> and leaves the rows of other users and every other table as
  they were; afterwards each row of \<open>me\<close> is read and the unread count of \<open>me\<close>, which
  is the number of rows of \<open>me\<close> that are not read, is 0.
\<close>

theorem read_all_clears_unread:
  "put_read_all me d =
     (200, d\<lparr> notification_receivers :=
                map (\<lambda>r. if nr_userId r = me then r\<lparr> nr_isRead := True \<rparr> else r)
                  (notification_receivers d) \<rparr>)
   \<and> (\<forall>r \<in> set (notification_receivers (snd (put_read_all me d))). nr_userId r = me \<longrightarrow> nr_isRead r)
   \<and> get_unread_count me (snd (put_read_all me d)) = (200, 0)
   \<and> get_unread_count me d =
       (200, length (filter (\<lambda>r. nr_userId r = me \<and> \<not> nr_isRead r) (notification_receivers d)))"
proof (intro conjI)
  show "put_read_all me d =
     (200, d\<lparr> notification_receivers :=
                map (\<lambda>r. if nr_userId r = me then r\<lparr> nr_isRead := True \<rparr> else r)
                  (notification_receivers d) \<rparr>)"
    by (simp add: put_read_all_def mark_receiver_read_eq [abs_def])
  show "\<forall>r \<in> set (notification_receivers (snd (put_read_all me d))). nr_userId r = me \<longrightarrow> nr_isRead r"
    using read_after_mark [of me "notification_receivers d"] by (simp add: put_read_all_def)
  show "get_unread_count me (snd (put_read_all me d)) = (200, 0)"
    by (simp add: get_unread_count_def put_read_all_def unread_after_mark del: length_filter_map)
  show "get_unread_count me d =
       (200, length (filter (\<lambda>r. nr_userId r = me \<and> \<not> nr_isRead r) (notification_receivers d)))"
    by (simp add: get_unread_count_def)
qed

theorem read_all_clears_unread_witness:
  "get_unread_count 2 (db ex_sent) = (200, 1)
   \<and> fst (put_read_all 2 (db ex_sent)) = 200
   \<and> get_unread_count 2 (snd (put_read_all 2 (db ex_sent))) = (200, 0)
   \<and> get_unread_count 3 (db ex_sent) = (200, 0)
   \<and> fst (put_read_all 3 (db ex_sent)) = 200"
proof -
  have a: "get_unread_count 2 (db ex_sent) = (200, 1)"
    by (simp add: get_unread_count_def ex_sent_eq)
  have d: "get_unread_count 3 (db ex_sent) = (200, 0)"
    by (simp add: get_unread_count_def ex_sent_eq)
  have e: "fst (put_read_all 3 (db ex_sent)) = 200"
    unfolding read_all_clears_unread [of 3 "db ex_sent", THEN conjunct1] by simp
  have b: "fst (put_read_all 2 (db ex_sent)) = 200"
    unfolding read_all_clears_unread [of 2 "db ex_sent", THEN conjunct1] by simp
  have c: "get_unread_count 2 (snd (put_read_all 2 (db ex_sent))) = (200, 0)"
    by (rule read_all_clears_unread [THEN conjunct2, THEN conjunct2, THEN conjunct1])
  show ?thesis
    using a b c d e by (intro conjI)
qed

section \<open>Reading a conversation\<close>



end
